theory Spec2Isabelle
  imports Complex_Main "HOL-Library.Monad_Syntax"
begin

section \<open>Data model\<close>

text \<open>
  A state is the 4-vector \<open>(q1, q2, dq1, dq2)\<close>, a control the 2-vector \<open>(u1, u2)\<close>.
  The floating-point numbers of the program are idealised as reals.
\<close>

type_synonym state = "real \<times> real \<times> real \<times> real"
type_synonym control = "real \<times> real"

text \<open>Matrices (\<open>Q\<close> is 4x4, \<open>R\<close> is 2x2) and vectors are indexed from 0.\<close>

type_synonym mat = "nat \<Rightarrow> nat \<Rightarrow> real"
type_synonym vec = "nat \<Rightarrow> real"

fun vec_of_state :: "state \<Rightarrow> vec" where
  "vec_of_state (a, b, c, d) = (\<lambda>i. if i = 0 then a else if i = 1 then b else if i = 2 then c else d)"

fun vec_of_control :: "control \<Rightarrow> vec" where
  "vec_of_control (a, b) = (\<lambda>i. if i = 0 then a else b)"

text \<open>\<open>np.diag\<close> of a list of diagonal entries.\<close>

definition diag :: "real list \<Rightarrow> mat" where
  "diag ds = (\<lambda>i j. if i = j then ds ! i else 0)"

text \<open>The exceptions the program can raise.\<close>

datatype error = RuntimeError | UnboundLocalError

section \<open>The plant: \<open>plant_dynamics\<close>\<close>

text \<open>
  Division of two numbers. A zero divisor is the one place where the arithmetic of
  \<open>plant_dynamics\<close> can leave the finite numbers (\<open>ZeroDivisionError\<close> on Python floats,
  an infinite or NaN entry on numpy and CasADi values); the model returns \<open>None\<close> there.
\<close>

definition fdiv :: "real \<Rightarrow> real \<Rightarrow> real option" where
  "fdiv a b = (if b = 0 then None else Some (a / b))"

text \<open>\<open>ca.vertcat\<close> of four scalars, and the vector arithmetic of \<open>x + dt * x_next\<close>.\<close>

definition vertcat :: "real \<Rightarrow> real \<Rightarrow> real \<Rightarrow> real \<Rightarrow> state" where
  "vertcat a b c d = (a, b, c, d)"

fun scale :: "real \<Rightarrow> state \<Rightarrow> state" where
  "scale k (a, b, c, d) = (k * a, k * b, k * c, k * d)"

fun vadd :: "state \<Rightarrow> state \<Rightarrow> state" where
  "vadd (a, b, c, d) (a', b', c', d') = (a + a', b + b', c + c', d + d')"

fun plant_dynamics :: "state \<Rightarrow> control \<Rightarrow> state option" where
  "plant_dynamics (q1, q2, dq1, dq2) (u1, u2) =
    (let dt = 0.01; l1 = 1; l2 = 1; m1 = 1; m2 = 1; g = 9.81 in
     do {
       a \<leftarrow> fdiv (l1\<^sup>2 * l2 * m2 * dq1\<^sup>2 * sin (- 2 * q2 + 2 * q1)
                 + 2 * u2 * cos (- q2 + q1) * l1
                 + 2 * (g * sin (- 2 * q2 + q1) * l1 * m2 / 2
                        + sin (- q2 + q1) * dq2\<^sup>2 * l1 * l2 * m2
                        + g * l1 * (m1 + m2 / 2) * sin q1
                        - u1) * l2) (l1\<^sup>2);
       a \<leftarrow> fdiv a l2;
       ddq1 \<leftarrow> fdiv a (m2 * cos (- 2 * q2 + 2 * q1) - 2 * m1 - m2);
       b \<leftarrow> fdiv (- g * l1 * l2 * m2 * (m1 + m2) * sin (- q2 + 2 * q1)
                 - l1 * l2\<^sup>2 * m2\<^sup>2 * dq2\<^sup>2 * sin (- 2 * q2 + 2 * q1)
                 - 2 * dq1\<^sup>2 * l1\<^sup>2 * l2 * m2 * (m1 + m2) * sin (- q2 + q1)
                 + 2 * u1 * cos (- q2 + q1) * l2 * m2
                 + l1 * (m1 + m2) * (sin q2 * g * l2 * m2 - 2 * u2)) (l2\<^sup>2);
       b \<leftarrow> fdiv b l1;
       b \<leftarrow> fdiv b m2;
       ddq2 \<leftarrow> fdiv b (m2 * cos (- 2 * q2 + 2 * q1) - 2 * m1 - m2);
       Some (vadd (q1, q2, dq1, dq2) (scale dt (vertcat dq1 dq2 ddq1 ddq2)))
     })"

text \<open>
  The last divisor of both accelerations (lines 24 and 31 of the source), with the masses
  \<open>m1 = m2 = 1\<close> of the function filled in.
\<close>

definition acc_denominator :: "real \<Rightarrow> real \<Rightarrow> real" where
  "acc_denominator q1 q2 = 1 * cos (- 2 * q2 + 2 * q1) - 2 * 1 - 1"

text \<open>
  The right-hand side \<open>f(x, u)\<close> of the equations of motion, as \<open>plant_dynamics\<close>
  computes it in \<open>x_next\<close>, with the constants of the function filled in.
\<close>

fun pendulum_rhs :: "state \<Rightarrow> control \<Rightarrow> state" where
  "pendulum_rhs (q1, q2, dq1, dq2) (u1, u2) =
     (dq1, dq2,
      (dq1\<^sup>2 * sin (- 2 * q2 + 2 * q1)
         + 2 * u2 * cos (- q2 + q1)
         + 2 * (9.81 * sin (- 2 * q2 + q1) / 2
                + sin (- q2 + q1) * dq2\<^sup>2
                + 9.81 * (1 + 1 / 2) * sin q1
                - u1)) / acc_denominator q1 q2,
      (- 9.81 * 2 * sin (- q2 + 2 * q1)
         - dq2\<^sup>2 * sin (- 2 * q2 + 2 * q1)
         - 2 * dq1\<^sup>2 * 2 * sin (- q2 + q1)
         + 2 * u1 * cos (- q2 + q1)
         + 2 * (sin q2 * 9.81 - 2 * u2)) / acc_denominator q1 q2)"

definition position :: "state \<Rightarrow> real \<times> real" where
  "position x = (fst x, fst (snd x))"

section \<open>The optimal-control problem: \<open>solve_ocp\<close>\<close>

text \<open>
  A value for every decision variable: column \<open>k\<close> of \<open>x\<close> and column \<open>k\<close> of \<open>u\<close>.
  A symbolic CasADi expression is the function that evaluates it at such a value.
\<close>

type_synonym assignment = "(nat \<Rightarrow> state) \<times> (nat \<Rightarrow> control)"

text \<open>
  The \<open>ca.Opti\<close> object: the number of columns of the variables \<open>x\<close> (4 rows) and \<open>u\<close>
  (2 rows), the constraints in the order of the \<open>subject_to\<close> calls, and the objective.
\<close>

record opti =
  x_cols :: nat
  u_cols :: nat
  constraints :: "(assignment \<Rightarrow> bool) list"
  objective :: "assignment \<Rightarrow> real"

text \<open>\<open>opti = ca.Opti(); x = opti.variable(4, N+1); u = opti.variable(2, N)\<close>\<close>

definition new_opti :: "nat \<Rightarrow> opti" where
  "new_opti N = \<lparr>x_cols = N + 1, u_cols = N, constraints = [], objective = (\<lambda>z. 0)\<rparr>"

definition subject_to :: "(assignment \<Rightarrow> bool) \<Rightarrow> opti \<Rightarrow> opti" where
  "subject_to c p = p\<lparr>constraints := constraints p @ [c]\<rparr>"

definition minimize :: "(assignment \<Rightarrow> real) \<Rightarrow> opti \<Rightarrow> opti" where
  "minimize c p = p\<lparr>objective := c\<rparr>"

text \<open>\<open>opti.bounded(lo, u, hi)\<close>: every entry of the 2 x \<open>n\<close> matrix \<open>u\<close> is in \<open>[lo, hi]\<close>.\<close>

definition bounded :: "real \<Rightarrow> nat \<Rightarrow> real \<Rightarrow> assignment \<Rightarrow> bool" where
  "bounded lo n hi z =
     (\<forall>k<n. lo \<le> fst (snd z k) \<and> fst (snd z k) \<le> hi \<and> lo \<le> snd (snd z k) \<and> snd (snd z k) \<le> hi)"

text \<open>\<open>ca.mtimes\<close> of a matrix and a column, and of a row and a column.\<close>

definition mtimes_mv :: "nat \<Rightarrow> mat \<Rightarrow> vec \<Rightarrow> vec" where
  "mtimes_mv n M v = (\<lambda>i. \<Sum>j<n. M i j * v j)"

definition mtimes_vv :: "nat \<Rightarrow> vec \<Rightarrow> vec \<Rightarrow> real" where
  "mtimes_vv n v w = (\<Sum>i<n. v i * w i)"

text \<open>The summand of line 45: \<open>x[:,k].T Q x[:,k] + u[:,k].T R u[:,k]\<close>.\<close>

definition stage_cost :: "mat \<Rightarrow> mat \<Rightarrow> state \<Rightarrow> control \<Rightarrow> real" where
  "stage_cost Q R x u =
     mtimes_vv 4 (vec_of_state x) (mtimes_mv 4 Q (vec_of_state x))
     + mtimes_vv 2 (vec_of_control u) (mtimes_mv 2 R (vec_of_control u))"

text \<open>The constraint of line 47: \<open>x[:, k+1] == plant_dynamics(x[:, k], u[:, k])\<close>.\<close>

definition dyn_constraint :: "nat \<Rightarrow> assignment \<Rightarrow> bool" where
  "dyn_constraint k z = (Some (fst z (k + 1)) = plant_dynamics (fst z k) (snd z k))"

text \<open>
  The body of the loop \<open>for k in range(N)\<close> (lines 45 to 47, and again 104 to 106): the
  stage cost is added to \<open>cost\<close> and the dynamics become an equality constraint.
\<close>

fun stage_body :: "mat \<Rightarrow> mat \<Rightarrow> nat \<Rightarrow> (assignment \<Rightarrow> real) \<times> opti \<Rightarrow> (assignment \<Rightarrow> real) \<times> opti" where
  "stage_body Q R k (cost, p) =
     (\<lambda>z. cost z + stage_cost Q R (fst z k) (snd z k), subject_to (dyn_constraint k) p)"

definition transcribe_stages :: "mat \<Rightarrow> mat \<Rightarrow> nat \<Rightarrow> opti \<Rightarrow> (assignment \<Rightarrow> real) \<times> opti" where
  "transcribe_stages Q R N p = fold (stage_body Q R) [0..<N] (\<lambda>z. 0, p)"

text \<open>Lines 38 to 52 of \<open>solve_ocp\<close>: the problem handed to the solver.\<close>

definition build_ocp :: "state \<Rightarrow> nat \<Rightarrow> mat \<Rightarrow> mat \<Rightarrow> opti" where
  "build_ocp x_init N Q R =
     (let p = new_opti N;
          (cost, p) = transcribe_stages Q R N p;
          p = minimize cost p;
          p = subject_to (\<lambda>z. fst z 0 = x_init) p;
          p = subject_to (bounded (- 1.99) N 1.99) p
      in p)"

text \<open>
  The nonlinear solver (IPOPT behind \<open>opti.solve()\<close>) is outside the program: it is a
  parameter that maps a problem to a value of the decision variables, or to \<open>None\<close> when
  \<open>opti.solve()\<close> raises \<open>RuntimeError\<close>.
\<close>

type_synonym solver = "opti \<Rightarrow> assignment option"

definition solve_ocp :: "solver \<Rightarrow> state \<Rightarrow> nat \<Rightarrow> mat \<Rightarrow> mat \<Rightarrow> error + real" where
  "solve_ocp solve x_init N Q R =
     (let p = build_ocp x_init N Q R in
      case solve p of
        None \<Rightarrow> Inl RuntimeError
      | Some sol \<Rightarrow> Inr (objective p sol))"

text \<open>A value of the decision variables is feasible when every constraint holds at it.\<close>

definition feasible :: "opti \<Rightarrow> assignment \<Rightarrow> bool" where
  "feasible p z = list_all (\<lambda>c. c z) (constraints p)"

section \<open>Training data: \<open>generate_ocp_samples\<close>\<close>

text \<open>
  \<open>np.random.uniform(low=-1.5, high=1.5, size=(4,))\<close> reads and advances the state of the
  random generator: \<open>uniform\<close> maps a generator state to the vector drawn and the next
  state. The loop \<open>for _ in range(num_samples)\<close> counts the remaining draws down; only
  \<open>RuntimeError\<close> is caught.
\<close>

fun sample_loop ::
  "solver \<Rightarrow> ('g \<Rightarrow> state \<times> 'g) \<Rightarrow> nat \<Rightarrow> nat \<Rightarrow> mat \<Rightarrow> mat \<Rightarrow> 'g \<Rightarrow> state list \<times> real list
     \<Rightarrow> error + (state list \<times> real list) \<times> 'g" where
  "sample_loop solve uniform 0 N Q R gen (X, Y) = Inr ((X, Y), gen)"
| "sample_loop solve uniform (Suc n) N Q R gen (X, Y) =
     (let (x0, gen) = uniform gen in
      case solve_ocp solve x0 N Q R of
        Inr J_x0 \<Rightarrow> sample_loop solve uniform n N Q R gen (X @ [x0], Y @ [J_x0])
      | Inl RuntimeError \<Rightarrow> sample_loop solve uniform n N Q R gen (X, Y)
      | Inl e \<Rightarrow> Inl e)"

definition generate_ocp_samples ::
  "solver \<Rightarrow> ('g \<Rightarrow> state \<times> 'g) \<Rightarrow> 'g \<Rightarrow> nat \<Rightarrow> nat \<Rightarrow> mat \<Rightarrow> mat
     \<Rightarrow> error + (state list \<times> real list) \<times> 'g" where
  "generate_ocp_samples solve uniform gen num_samples N Q R =
     sample_loop solve uniform num_samples N Q R gen ([], [])"

text \<open>The vectors drawn by \<open>n\<close> successive calls of \<open>uniform\<close>, and the generator after them.\<close>

fun draws :: "('g \<Rightarrow> state \<times> 'g) \<Rightarrow> nat \<Rightarrow> 'g \<Rightarrow> state list" where
  "draws uniform 0 gen = []"
| "draws uniform (Suc n) gen = fst (uniform gen) # draws uniform n (snd (uniform gen))"

fun advance :: "('g \<Rightarrow> state \<times> 'g) \<Rightarrow> nat \<Rightarrow> 'g \<Rightarrow> 'g" where
  "advance uniform 0 gen = gen"
| "advance uniform (Suc n) gen = advance uniform n (snd (uniform gen))"

text \<open>The outcome of one draw: the pair to append, or nothing when the solver failed.\<close>

definition sample_of :: "solver \<Rightarrow> nat \<Rightarrow> mat \<Rightarrow> mat \<Rightarrow> state \<Rightarrow> (state \<times> real) option" where
  "sample_of solve N Q R x0 =
     (case solve_ocp solve x0 N Q R of Inr J \<Rightarrow> Some (x0, J) | Inl e \<Rightarrow> None)"

section \<open>The receding-horizon loop: \<open>mpc_controller\<close>\<close>

text \<open>
  The local variables of \<open>mpc_controller\<close> that live across iterations. \<open>sol\<close> is
  unbound (\<open>None\<close>) until line 118 has run once.
\<close>

record mpc_state =
  x_current :: state
  total_cost :: real
  x_traj :: "state list"
  u_traj :: "control list"
  sol :: "assignment option"

text \<open>
  Line 108 evaluates \<open>sol.value(x[:, -1])\<close> with \<open>sol\<close> the solution of the previous
  iteration's problem and \<open>x\<close> the variable of the new \<open>ca.Opti\<close> object. What CasADi does
  with that is outside the program: it is a parameter, which maps the previous solution
  and \<open>N\<close> to the vector read or to the exception raised.
\<close>

type_synonym value_last = "assignment \<Rightarrow> nat \<Rightarrow> error + state"

text \<open>
  Lines 98 to 113: the problem of one iteration. The trained network is outside the
  program; \<open>predict\<close> stands for \<open>terminal_cost_model.predict(...)[0, 0]\<close>. Line 108 reads
  \<open>sol\<close>, which raises \<open>UnboundLocalError\<close> while \<open>sol\<close> is unbound.
\<close>

definition build_mpc_ocp :: "value_last \<Rightarrow> (state \<Rightarrow> real) \<Rightarrow> nat \<Rightarrow> mat \<Rightarrow> mat \<Rightarrow> mpc_state \<Rightarrow> error + opti" where
  "build_mpc_ocp value_last predict N Q R st =
     (let p = new_opti N;
          (cost, p) = transcribe_stages Q R N p
      in case sol st of
           None \<Rightarrow> Inl UnboundLocalError
         | Some prev \<Rightarrow>
             (case value_last prev N of
                Inl e \<Rightarrow> Inl e
              | Inr x_last \<Rightarrow>
                  (let terminal_cost = predict x_last;
                       cost = (\<lambda>z. cost z + terminal_cost);
                       p = minimize cost p;
                       p = subject_to (\<lambda>z. fst z 0 = x_current st) p;
                       p = subject_to (bounded (- 1.99) N 1.99) p
                   in Inr p)))"

text \<open>
  One iteration of the loop of line 96. With \<open>N = 0\<close> the variable \<open>u\<close> has no column and
  \<open>x\<close> has one, so the slices \<open>u[:, 0]\<close> and \<open>x[:, 1]\<close> are out of range; CasADi rejects
  them, and its errors reach Python as \<open>RuntimeError\<close>.
\<close>

definition mpc_iteration :: "solver \<Rightarrow> value_last \<Rightarrow> (state \<Rightarrow> real) \<Rightarrow> nat \<Rightarrow> mat \<Rightarrow> mat \<Rightarrow> mpc_state \<Rightarrow> error + mpc_state" where
  "mpc_iteration solve value_last predict N Q R st =
     (case build_mpc_ocp value_last predict N Q R st of
        Inl e \<Rightarrow> Inl e
      | Inr p \<Rightarrow>
          (case solve p of
             None \<Rightarrow> Inl RuntimeError
           | Some s \<Rightarrow>
               if N = 0 then Inl RuntimeError
               else
                 (let u_opt = snd s 0;
                      x_opt = fst s 1
                  in Inr \<lparr>x_current = x_opt,
                          total_cost = total_cost st + objective p s,
                          x_traj = x_traj st @ [x_opt],
                          u_traj = u_traj st @ [u_opt],
                          sol = Some s\<rparr>)))"

fun mpc_loop :: "solver \<Rightarrow> value_last \<Rightarrow> (state \<Rightarrow> real) \<Rightarrow> nat \<Rightarrow> mat \<Rightarrow> mat \<Rightarrow> nat \<Rightarrow> mpc_state \<Rightarrow> error + mpc_state" where
  "mpc_loop solve value_last predict N Q R 0 st = Inr st"
| "mpc_loop solve value_last predict N Q R (Suc h) st =
     (case mpc_iteration solve value_last predict N Q R st of
        Inl e \<Rightarrow> Inl e
      | Inr st' \<Rightarrow> mpc_loop solve value_last predict N Q R h st')"

definition mpc_controller ::
  "solver \<Rightarrow> value_last \<Rightarrow> state \<Rightarrow> real \<Rightarrow> nat \<Rightarrow> mat \<Rightarrow> mat \<Rightarrow> nat \<Rightarrow> (state \<Rightarrow> real)
     \<Rightarrow> error + state list \<times> control list \<times> real" where
  "mpc_controller solve value_last x_init dt N Q R horizon_length terminal_cost_model =
     (case mpc_loop solve value_last terminal_cost_model N Q R horizon_length
             \<lparr>x_current = x_init, total_cost = 0, x_traj = [x_init], u_traj = [], sol = None\<rparr> of
        Inl e \<Rightarrow> Inl e
      | Inr st \<Rightarrow> Inr (x_traj st, u_traj st, total_cost st))"

section \<open>Optimality and the weight matrices\<close>

text \<open>A global minimiser of a problem: feasible, and no feasible value has a lower objective.\<close>

definition minimiser :: "opti \<Rightarrow> assignment \<Rightarrow> bool" where
  "minimiser p z = (feasible p z \<and> (\<forall>z'. feasible p z' \<longrightarrow> objective p z \<le> objective p z'))"

text \<open>Positive semi-definiteness of an \<open>n\<close> x \<open>n\<close> matrix.\<close>

definition psd :: "nat \<Rightarrow> mat \<Rightarrow> bool" where
  "psd n M = (\<forall>v. 0 \<le> mtimes_vv n v (mtimes_mv n M v))"

text \<open>The matrix \<open>M\<close> with its diagonal entry \<open>i\<close> raised by \<open>d\<close>.\<close>

definition raise_diag :: "mat \<Rightarrow> nat \<Rightarrow> real \<Rightarrow> mat" where
  "raise_diag M i d = (\<lambda>r c. if r = i \<and> c = i then M r c + d else M r c)"

section \<open>Properties of the plant\<close>

lemma acc_denominator_bounds: "- 4 \<le> acc_denominator q1 q2 \<and> acc_denominator q1 q2 \<le> - 2"
  unfolding acc_denominator_def
  using cos_ge_minus_one [of "- 2 * q2 + 2 * q1"] cos_le_one [of "- 2 * q2 + 2 * q1"]
  by linarith

lemma acc_denominator_nonzero: "acc_denominator q1 q2 \<noteq> 0"
  using acc_denominator_bounds [of q1 q2] by linarith

text \<open>
  None of the seven divisions of \<open>plant_dynamics\<close> has a zero divisor, and the result is
  the explicit Euler step of the closed form.
\<close>

lemma plant_dynamics_closed_form:
  "plant_dynamics (q1, q2, dq1, dq2) (u1, u2) =
     Some (vadd (q1, q2, dq1, dq2) (scale 0.01 (pendulum_rhs (q1, q2, dq1, dq2) (u1, u2))))"
proof -
  have "cos (- 2 * q2 + 2 * q1) - 3 \<noteq> 0"
    using acc_denominator_nonzero [of q1 q2] by (simp add: acc_denominator_def)
  then show ?thesis
    by (simp add: fdiv_def vertcat_def Let_def acc_denominator_def)
qed

lemma plant_dynamics_origin: "plant_dynamics (0, 0, 0, 0) (0, 0) = Some (0, 0, 0, 0)"
  by (simp add: fdiv_def vertcat_def)

text \<open>
  Claim C10. For every state \<open>x\<close> and controls \<open>u\<close>, \<open>u'\<close>: the step returns
  \<open>x + dt * f(x, u)\<close> with \<open>dt = 0.01\<close>; its two position components are
  \<open>q1 + dt * dq1\<close> and \<open>q2 + dt * dq2\<close>; and they are the same for \<open>u\<close> and \<open>u'\<close>.
\<close>

theorem plant_dynamics_euler_step:
  "plant_dynamics x u = Some (vadd x (scale 0.01 (pendulum_rhs x u)))
   \<and> map_option position (plant_dynamics x u) =
       Some (fst x + 0.01 * fst (snd (snd x)), fst (snd x) + 0.01 * snd (snd (snd x)))
   \<and> map_option position (plant_dynamics x u) = map_option position (plant_dynamics x u')"
proof -
  obtain q1 q2 dq1 dq2 where x: "x = (q1, q2, dq1, dq2)" by (cases x) auto
  obtain u1 u2 where u: "u = (u1, u2)" by (cases u) auto
  obtain v1 v2 where u': "u' = (v1, v2)" by (cases u') auto
  show ?thesis
    unfolding x u u' plant_dynamics_closed_form
    by (simp add: position_def)
qed

theorem plant_dynamics_euler_step_witness:
  "plant_dynamics (0, 0, 1, 2) (0, 0) = Some (0.01, 0.02, 1, 2)
   \<and> map_option position (plant_dynamics (0, 0, 1, 2) (1, - 1)) = Some (0.01, 0.02)"
proof -
  note step = plant_dynamics_euler_step [of "(0, 0, 1, 2)" "(1, - 1)" "(0, 0)"]
  have "plant_dynamics (0, 0, 1, 2) (0, 0) = Some (0.01, 0.02, 1, 2)"
    by (simp add: fdiv_def vertcat_def Let_def)
  moreover from step have "map_option position (plant_dynamics (0, 0, 1, 2) (1, - 1)) = Some (0.01, 0.02)"
    by (simp add: position_def del: plant_dynamics.simps)
  ultimately show ?thesis by blast
qed

section \<open>Properties of the transcription\<close>

lemma fold_stage_body:
  "fold (stage_body Q R) [0..<N] (c, p) =
     (\<lambda>z. c z + (\<Sum>k<N. stage_cost Q R (fst z k) (snd z k)),
      p\<lparr>constraints := constraints p @ map dyn_constraint [0..<N]\<rparr>)"
proof (induction N)
  case 0
  show ?case by simp
next
  case (Suc N)
  show ?case
    by (simp add: Suc subject_to_def add.assoc)
qed

lemma transcribe_stages_eq:
  "transcribe_stages Q R N p =
     (\<lambda>z. \<Sum>k<N. stage_cost Q R (fst z k) (snd z k),
      p\<lparr>constraints := constraints p @ map dyn_constraint [0..<N]\<rparr>)"
  by (simp add: transcribe_stages_def fold_stage_body)

lemma build_ocp_eq:
  "build_ocp x_init N Q R =
     \<lparr>x_cols = N + 1, u_cols = N,
      constraints = map dyn_constraint [0..<N] @ [\<lambda>z. fst z 0 = x_init, bounded (- 1.99) N 1.99],
      objective = (\<lambda>z. \<Sum>k<N. stage_cost Q R (fst z k) (snd z k))\<rparr>"
  by (simp add: build_ocp_def transcribe_stages_eq new_opti_def minimize_def subject_to_def)

lemma feasible_build_ocp:
  "feasible (build_ocp x_init N Q R) z \<longleftrightarrow>
     fst z 0 = x_init
     \<and> (\<forall>k<N. Some (fst z (k + 1)) = plant_dynamics (fst z k) (snd z k))
     \<and> bounded (- 1.99) N 1.99 z"
  by (auto simp add: feasible_def build_ocp_eq list_all_iff dyn_constraint_def)

text \<open>
  Claim C4. For every \<open>x0\<close> and \<open>N\<close> the transcription declares \<open>N + 1\<close> state columns and
  \<open>N\<close> control columns, and a value of the variables satisfies its constraints exactly when
  the state at index 0 is \<open>x0\<close>, every \<open>state[k+1]\<close> with \<open>k < N\<close> is the dynamics step of
  \<open>(state[k], control[k])\<close>, and every control component is in \<open>[-1.99, 1.99]\<close>.
\<close>

theorem ocp_transcription:
  "x_cols (build_ocp x0 N Q R) = N + 1
   \<and> u_cols (build_ocp x0 N Q R) = N
   \<and> (feasible (build_ocp x0 N Q R) (X, U) \<longleftrightarrow>
        X 0 = x0
        \<and> (\<forall>k<N. Some (X (k + 1)) = plant_dynamics (X k) (U k))
        \<and> (\<forall>k<N. - 1.99 \<le> fst (U k) \<and> fst (U k) \<le> 1.99 \<and> - 1.99 \<le> snd (U k) \<and> snd (U k) \<le> 1.99))"
proof -
  have "x_cols (build_ocp x0 N Q R) = N + 1" and "u_cols (build_ocp x0 N Q R) = N"
    by (simp_all add: build_ocp_eq)
  then show ?thesis
    by (simp add: feasible_build_ocp bounded_def)
qed

theorem ocp_transcription_witness:
  "x_cols (build_ocp (0, 0, 0, 0) 2 (diag [10, 10, 10, 10]) (diag [1, 1])) = 3
   \<and> u_cols (build_ocp (0, 0, 0, 0) 2 (diag [10, 10, 10, 10]) (diag [1, 1])) = 2
   \<and> feasible (build_ocp (0, 0, 0, 0) 2 (diag [10, 10, 10, 10]) (diag [1, 1]))
        (\<lambda>k. (0, 0, 0, 0), \<lambda>k. (0, 0))
   \<and> \<not> feasible (build_ocp (0, 0, 0, 0) 2 (diag [10, 10, 10, 10]) (diag [1, 1]))
        (\<lambda>k. (0, 0, 0, 0), \<lambda>k. (2, 0))"
proof -
  note good = ocp_transcription [of "(0, 0, 0, 0)" 2 "diag [10, 10, 10, 10]" "diag [1, 1]"
      "\<lambda>k. (0, 0, 0, 0)" "\<lambda>k. (0, 0)"]
  note bad = ocp_transcription [of "(0, 0, 0, 0)" 2 "diag [10, 10, 10, 10]" "diag [1, 1]"
      "\<lambda>k. (0, 0, 0, 0)" "\<lambda>k. (2, 0)"]
  have "feasible (build_ocp (0, 0, 0, 0) 2 (diag [10, 10, 10, 10]) (diag [1, 1]))
          (\<lambda>k. (0, 0, 0, 0), \<lambda>k. (0, 0))"
    using good by (simp add: plant_dynamics_origin del: plant_dynamics.simps)
  moreover have "\<not> (\<forall>k<(2::nat). - 1.99 \<le> fst (2::real, 0::real) \<and> fst (2::real, 0::real) \<le> 1.99
                    \<and> - 1.99 \<le> snd (2::real, 0::real) \<and> snd (2::real, 0::real) \<le> 1.99)"
    by (simp add: exI [of _ 0])
  then have "\<not> feasible (build_ocp (0, 0, 0, 0) 2 (diag [10, 10, 10, 10]) (diag [1, 1]))
          (\<lambda>k. (0, 0, 0, 0), \<lambda>k. (2, 0))"
    using bad by blast
  ultimately show ?thesis using good by (simp del: plant_dynamics.simps)
qed

section \<open>Properties of the cost\<close>

lemma objective_build_ocp:
  "objective (build_ocp x0 N Q R) z = (\<Sum>k<N. stage_cost Q R (fst z k) (snd z k))"
  by (simp add: build_ocp_eq)

lemma solve_ocp_error: "solve_ocp solve x0 N Q R = Inl e \<Longrightarrow> e = RuntimeError"
  by (auto simp add: solve_ocp_def Let_def split: option.splits)

lemma quad_diag:
  "mtimes_vv n v (mtimes_mv n (diag ds) v) = (\<Sum>i<n. ds ! i * (v i)\<^sup>2)"
proof -
  have row: "(\<Sum>j<n. diag ds i j * v j) = (if i < n then ds ! i * v i else 0)" for i
  proof -
    have "(\<Sum>j<n. diag ds i j * v j) = (\<Sum>j<n. if j = i then ds ! i * v i else 0)"
      by (rule sum.cong) (auto simp add: diag_def)
    then show ?thesis by simp
  qed
  have "mtimes_vv n v (mtimes_mv n (diag ds) v) = (\<Sum>i<n. v i * (if i < n then ds ! i * v i else 0))"
    by (simp add: mtimes_vv_def mtimes_mv_def row)
  also have "\<dots> = (\<Sum>i<n. ds ! i * (v i)\<^sup>2)"
    by (rule sum.cong) (auto simp add: power2_eq_square)
  finally show ?thesis .
qed

lemma psd_diag:
  assumes "\<And>i. i < n \<Longrightarrow> 0 \<le> ds ! i"
  shows "psd n (diag ds)"
  unfolding psd_def quad_diag
  using assms by (auto intro!: sum_nonneg)

lemma quad_raise_diag:
  "mtimes_vv n v (mtimes_mv n (raise_diag M i d) v) =
     mtimes_vv n v (mtimes_mv n M v) + (if i < n then d * (v i)\<^sup>2 else 0)"
proof -
  have entry: "raise_diag M i d r c = M r c + (if r = i \<and> c = i then d else 0)" for r c
    by (simp add: raise_diag_def)
  have row: "(\<Sum>c<n. raise_diag M i d r c * v c) =
      (\<Sum>c<n. M r c * v c) + (if r = i \<and> i < n then d * v i else 0)" for r
  proof -
    have "(\<Sum>c<n. raise_diag M i d r c * v c) =
        (\<Sum>c<n. M r c * v c) + (\<Sum>c<n. (if r = i \<and> c = i then d else 0) * v c)"
      by (simp add: entry distrib_right sum.distrib)
    also have "(\<Sum>c<n. (if r = i \<and> c = i then d else 0) * v c) =
        (\<Sum>c<n. if c = i then (if r = i then d * v i else 0) else 0)"
      by (rule sum.cong) auto
    also have "\<dots> = (if r = i \<and> i < n then d * v i else 0)"
      by simp
    finally show ?thesis .
  qed
  have "mtimes_vv n v (mtimes_mv n (raise_diag M i d) v) =
      (\<Sum>r<n. v r * (\<Sum>c<n. M r c * v c)) + (\<Sum>r<n. v r * (if r = i \<and> i < n then d * v i else 0))"
    by (simp add: mtimes_vv_def mtimes_mv_def row distrib_left sum.distrib)
  also have "(\<Sum>r<n. v r * (if r = i \<and> i < n then d * v i else 0)) =
      (\<Sum>r<n. if r = i then (if i < n then d * (v i)\<^sup>2 else 0) else 0)"
    by (rule sum.cong) (auto simp add: power2_eq_square)
  also have "\<dots> = (if i < n then d * (v i)\<^sup>2 else 0)"
    by simp
  finally show ?thesis
    by (simp add: mtimes_vv_def mtimes_mv_def)
qed

lemma quad_raise_diag_ge:
  "0 \<le> d \<Longrightarrow> mtimes_vv n v (mtimes_mv n M v) \<le> mtimes_vv n v (mtimes_mv n (raise_diag M i d) v)"
  by (simp add: quad_raise_diag)

lemma stage_cost_mono:
  "0 \<le> d \<Longrightarrow> 0 \<le> e \<Longrightarrow> stage_cost Q R x u \<le> stage_cost (raise_diag Q i d) (raise_diag R j e) x u"
  unfolding stage_cost_def
  by (intro add_mono quad_raise_diag_ge)

lemma stage_cost_nonneg: "psd 4 Q \<Longrightarrow> psd 2 R \<Longrightarrow> 0 \<le> stage_cost Q R x u"
  by (simp add: stage_cost_def psd_def)

lemma psd_raise_diag: "psd n M \<Longrightarrow> 0 \<le> d \<Longrightarrow> psd n (raise_diag M i d)"
  unfolding psd_def
  by (metis order_trans quad_raise_diag_ge)

lemma objective_mono:
  "0 \<le> d \<Longrightarrow> 0 \<le> e \<Longrightarrow>
   objective (build_ocp x0 N Q R) z \<le> objective (build_ocp x0 N (raise_diag Q i d) (raise_diag R j e)) z"
  unfolding objective_build_ocp
  by (intro sum_mono stage_cost_mono)

lemma feasible_weights:
  "feasible (build_ocp x0 N Q R) z = feasible (build_ocp x0 N Q' R') z"
  by (simp add: feasible_build_ocp)

lemma nonneg_weights_main:
  "psd 4 (diag [10, 10, 10, 10])" "psd 2 (diag [1, 1])" "psd 2 (diag [0, 0])"
  by (rule psd_diag, simp add: nth_Cons' )+

lemma stage_cost_diag:
  "stage_cost (diag [a, b, c, d]) (diag [r, s]) (x1, x2, x3, x4) (u1, u2) =
     a * x1\<^sup>2 + b * x2\<^sup>2 + c * x3\<^sup>2 + d * x4\<^sup>2 + (r * u1\<^sup>2 + s * u2\<^sup>2)"
  by (simp add: stage_cost_def quad_diag eval_nat_numeral)

lemma build_mpc_ocp_eq:
  "build_mpc_ocp value_last predict N Q R st =
     (case sol st of
        None \<Rightarrow> Inl UnboundLocalError
      | Some prev \<Rightarrow>
          (case value_last prev N of
             Inl e \<Rightarrow> Inl e
           | Inr x_last \<Rightarrow>
               Inr \<lparr>x_cols = N + 1, u_cols = N,
                    constraints = map dyn_constraint [0..<N] @
                      [\<lambda>z. fst z 0 = x_current st, bounded (- 1.99) N 1.99],
                    objective = (\<lambda>z. (\<Sum>k<N. stage_cost Q R (fst z k) (snd z k))
                                      + predict x_last)\<rparr>))"
  by (simp add: build_mpc_ocp_def transcribe_stages_eq new_opti_def minimize_def subject_to_def
      split: option.splits sum.splits)

lemma minimiser_one_stage:
  assumes "psd 2 R"
  shows "minimiser (build_ocp x0 1 Q R)
           (\<lambda>k. if k = 0 then x0 else vadd x0 (scale 0.01 (pendulum_rhs x0 (0, 0))), \<lambda>k. (0, 0))"
proof -
  let ?z = "(\<lambda>k::nat. if k = 0 then x0 else vadd x0 (scale 0.01 (pendulum_rhs x0 (0, 0))), \<lambda>k::nat. (0::real, 0::real))"
  obtain q1 q2 dq1 dq2 where x0: "x0 = (q1, q2, dq1, dq2)" by (cases x0) auto
  have step: "plant_dynamics x0 (0, 0) = Some (vadd x0 (scale 0.01 (pendulum_rhs x0 (0, 0))))"
    unfolding x0 by (rule plant_dynamics_closed_form)
  have feas: "feasible (build_ocp x0 1 Q R) ?z"
    using step by (simp add: feasible_build_ocp bounded_def del: plant_dynamics.simps)
  have zero: "mtimes_vv 2 (vec_of_control (0, 0)) (mtimes_mv 2 R (vec_of_control (0, 0))) = 0"
    by (simp add: mtimes_vv_def)
  have "objective (build_ocp x0 1 Q R) ?z \<le> objective (build_ocp x0 1 Q R) w"
    if "feasible (build_ocp x0 1 Q R) w" for w
  proof -
    have "fst w 0 = x0"
      using that by (simp add: feasible_build_ocp)
    moreover have "0 \<le> mtimes_vv 2 (vec_of_control (snd w 0)) (mtimes_mv 2 R (vec_of_control (snd w 0)))"
      using assms by (simp add: psd_def)
    ultimately show ?thesis
      using zero by (simp add: objective_build_ocp stage_cost_def)
  qed
  then show ?thesis
    using feas unfolding minimiser_def by blast
qed

text \<open>
  Claim C3, as amended. For every successful solve, \<open>solve_ocp\<close> returns the scalar cost
  alone: the sum of the stage costs at the solver's solution. A solver failure leaves the
  function as \<open>RuntimeError\<close>.
\<close>

theorem solve_ocp_returns_cost:
  "(\<forall>z. solve (build_ocp x0 N Q R) = Some z \<longrightarrow>
        solve_ocp solve x0 N Q R = Inr (\<Sum>k<N. stage_cost Q R (fst z k) (snd z k)))
   \<and> (solve (build_ocp x0 N Q R) = None \<longrightarrow> solve_ocp solve x0 N Q R = Inl RuntimeError)"
  by (simp add: solve_ocp_def objective_build_ocp)

theorem solve_ocp_returns_cost_witness:
  "solve_ocp (\<lambda>p. Some (\<lambda>k. (1, 0, 0, 0), \<lambda>k. (1, 1))) (1, 0, 0, 0) 1
      (diag [10, 10, 10, 10]) (diag [1, 1]) = Inr 12
   \<and> solve_ocp (\<lambda>p. None) (1, 0, 0, 0) 1 (diag [10, 10, 10, 10]) (diag [1, 1]) = Inl RuntimeError"
  using solve_ocp_returns_cost [of "\<lambda>p. Some (\<lambda>k. (1, 0, 0, 0), \<lambda>k. (1, 1))" "(1, 0, 0, 0)" 1
      "diag [10, 10, 10, 10]" "diag [1, 1]"]
    solve_ocp_returns_cost [of "\<lambda>p. None" "(1, 0, 0, 0)" 1 "diag [10, 10, 10, 10]" "diag [1, 1]"]
  by (simp add: stage_cost_diag)

text \<open>
  The claim as stated has the state trajectory and the control sequence in the result.
  Two solutions of one problem (the weights on the controls are zero, so both are optimal)
  with different controls and different trajectories give the same result, the cost 0.
\<close>

theorem solve_ocp_forgets_trajectory:
  "solve_ocp (\<lambda>p. Some (\<lambda>k. if k = 0 then (0, 0, 0, 0) else (0, 0, 0.01, - 0.01), \<lambda>k. (1, 0)))
      (0, 0, 0, 0) 1 (diag [10, 10, 10, 10]) (diag [0, 0]) = Inr 0
   \<and> solve_ocp (\<lambda>p. Some (\<lambda>k. if k = 0 then (0, 0, 0, 0) else (0, 0, - 0.01, 0.02), \<lambda>k. (0, 1)))
      (0, 0, 0, 0) 1 (diag [10, 10, 10, 10]) (diag [0, 0]) = Inr 0
   \<and> feasible (build_ocp (0, 0, 0, 0) 1 (diag [10, 10, 10, 10]) (diag [0, 0]))
        (\<lambda>k. if k = 0 then (0, 0, 0, 0) else (0, 0, 0.01, - 0.01), \<lambda>k. (1, 0))
   \<and> feasible (build_ocp (0, 0, 0, 0) 1 (diag [10, 10, 10, 10]) (diag [0, 0]))
        (\<lambda>k. if k = 0 then (0, 0, 0, 0) else (0, 0, - 0.01, 0.02), \<lambda>k. (0, 1))"
  by (simp add: solve_ocp_def objective_build_ocp stage_cost_diag feasible_build_ocp bounded_def
      fdiv_def vertcat_def Let_def)

text \<open>
  Claim C8. When \<open>Q\<close> and \<open>R\<close> are positive semi-definite, the cost of any value of the
  decision variables is the sum of the per-stage quadratic terms, each of them nonnegative,
  so it is nonnegative, and so is the cost \<open>solve_ocp\<close> returns; with the terminal term of
  the receding-horizon problem the cost is that sum plus the term, so at least the term.
\<close>

theorem total_cost_nonneg:
  assumes "psd 4 Q" and "psd 2 R"
  shows "objective (build_ocp x0 N Q R) z = (\<Sum>k<N. stage_cost Q R (fst z k) (snd z k))
    \<and> (\<forall>k<N. 0 \<le> stage_cost Q R (fst z k) (snd z k))
    \<and> 0 \<le> objective (build_ocp x0 N Q R) z
    \<and> (\<forall>c. solve_ocp solve x0 N Q R = Inr c \<longrightarrow> 0 \<le> c)
    \<and> (\<forall>p. build_mpc_ocp value_last predict N Q R st = Inr p \<longrightarrow>
          (\<exists>prev x_last. sol st = Some prev \<and> value_last prev N = Inr x_last
             \<and> objective p z = (\<Sum>k<N. stage_cost Q R (fst z k) (snd z k)) + predict x_last
             \<and> predict x_last \<le> objective p z))"
proof -
  have stage: "0 \<le> stage_cost Q R x u" for x u
    using assms by (rule stage_cost_nonneg)
  have sum: "0 \<le> (\<Sum>k<N. stage_cost Q R (fst w k) (snd w k))" for w
    by (intro sum_nonneg stage)
  have obj: "0 \<le> objective (build_ocp x0 N Q R) w" for w
    unfolding objective_build_ocp by (rule sum)
  have solved: "0 \<le> c" if "solve_ocp solve x0 N Q R = Inr c" for c
    using that obj by (auto simp add: solve_ocp_def Let_def split: option.splits)
  have mpc: "\<exists>prev x_last. sol st = Some prev \<and> value_last prev N = Inr x_last
      \<and> objective p z = (\<Sum>k<N. stage_cost Q R (fst z k) (snd z k)) + predict x_last
      \<and> predict x_last \<le> objective p z"
    if "build_mpc_ocp value_last predict N Q R st = Inr p" for p
    using that sum [of z] by (auto simp add: build_mpc_ocp_eq split: option.splits sum.splits)
  show ?thesis
    using stage obj solved mpc by (simp add: objective_build_ocp)
qed

theorem total_cost_nonneg_witness:
  "psd 4 (diag [10, 10, 10, 10]) \<and> psd 2 (diag [1, 1])
   \<and> objective (build_ocp (1, 0, 0, 0) 1 (diag [10, 10, 10, 10]) (diag [1, 1]))
        (\<lambda>k. (1, 0, 0, 0), \<lambda>k. (1, 1)) = 12
   \<and> 0 \<le> objective (build_ocp (1, 0, 0, 0) 1 (diag [10, 10, 10, 10]) (diag [1, 1]))
        (\<lambda>k. (1, 0, 0, 0), \<lambda>k. (1, 1))"
  using total_cost_nonneg [OF nonneg_weights_main(1) nonneg_weights_main(2),
      of "(1, 0, 0, 0)" 1 "(\<lambda>k. (1, 0, 0, 0), \<lambda>k. (1, 1))"]
  by (simp add: nonneg_weights_main stage_cost_diag)

text \<open>
  Claim C9. For fixed \<open>x0\<close> and \<open>N\<close>, raising a diagonal entry of \<open>Q\<close> by \<open>d \<ge> 0\<close> and one of
  \<open>R\<close> by \<open>e \<ge> 0\<close> (one of them may be 0) does not lower the optimal cost: when the solver
  returns a global minimiser of either problem, the cost returned for the raised weights is
  at least the cost returned for the original ones.
\<close>

theorem optimal_cost_monotone:
  assumes "0 \<le> d" and "0 \<le> e"
    and "solve (build_ocp x0 N Q R) = Some z"
    and "minimiser (build_ocp x0 N Q R) z"
    and "solve (build_ocp x0 N (raise_diag Q i d) (raise_diag R j e)) = Some z'"
    and "minimiser (build_ocp x0 N (raise_diag Q i d) (raise_diag R j e)) z'"
  shows "\<exists>c c'. solve_ocp solve x0 N Q R = Inr c
           \<and> solve_ocp solve x0 N (raise_diag Q i d) (raise_diag R j e) = Inr c'
           \<and> c \<le> c'"
proof -
  let ?p = "build_ocp x0 N Q R"
  let ?p' = "build_ocp x0 N (raise_diag Q i d) (raise_diag R j e)"
  have "feasible ?p' z'"
    using assms(6) by (simp add: minimiser_def)
  then have "feasible ?p z'"
    by (simp add: feasible_build_ocp)
  then have "objective ?p z \<le> objective ?p z'"
    using assms(4) unfolding minimiser_def by blast
  also have "objective ?p z' \<le> objective ?p' z'"
    using assms(1,2) by (rule objective_mono)
  finally have "objective ?p z \<le> objective ?p' z'" .
  then show ?thesis
    using assms(3,5) by (simp add: solve_ocp_def)
qed

theorem optimal_cost_monotone_witness:
  "solve_ocp (\<lambda>p. Some (\<lambda>k. if k = 0 then (1, 0, 0, 0)
                               else vadd (1, 0, 0, 0) (scale 0.01 (pendulum_rhs (1, 0, 0, 0) (0, 0))),
                          \<lambda>k. (0, 0)))
      (1, 0, 0, 0) 1 (diag [10, 10, 10, 10]) (diag [1, 1]) = Inr 10
   \<and> solve_ocp (\<lambda>p. Some (\<lambda>k. if k = 0 then (1, 0, 0, 0)
                               else vadd (1, 0, 0, 0) (scale 0.01 (pendulum_rhs (1, 0, 0, 0) (0, 0))),
                          \<lambda>k. (0, 0)))
      (1, 0, 0, 0) 1 (raise_diag (diag [10, 10, 10, 10]) 0 5) (raise_diag (diag [1, 1]) 0 0) = Inr 15
   \<and> (\<exists>c c'. solve_ocp (\<lambda>p. Some (\<lambda>k. if k = 0 then (1, 0, 0, 0)
                               else vadd (1, 0, 0, 0) (scale 0.01 (pendulum_rhs (1, 0, 0, 0) (0, 0))),
                          \<lambda>k. (0, 0)))
      (1, 0, 0, 0) 1 (diag [10, 10, 10, 10]) (diag [1, 1]) = Inr c
     \<and> solve_ocp (\<lambda>p. Some (\<lambda>k. if k = 0 then (1, 0, 0, 0)
                               else vadd (1, 0, 0, 0) (scale 0.01 (pendulum_rhs (1, 0, 0, 0) (0, 0))),
                          \<lambda>k. (0, 0)))
      (1, 0, 0, 0) 1 (raise_diag (diag [10, 10, 10, 10]) 0 5) (raise_diag (diag [1, 1]) 0 0) = Inr c'
     \<and> c \<le> c')"
proof -
  let ?z = "(\<lambda>k::nat. if k = 0 then (1::real, 0::real, 0::real, 0::real)
                else vadd (1, 0, 0, 0) (scale 0.01 (pendulum_rhs (1, 0, 0, 0) (0, 0))),
             \<lambda>k::nat. (0::real, 0::real))"
  let ?solve = "\<lambda>p::opti. Some ?z"
  have m: "minimiser (build_ocp (1, 0, 0, 0) 1 (diag [10, 10, 10, 10]) (diag [1, 1])) ?z"
    by (rule minimiser_one_stage) (rule nonneg_weights_main)
  have m': "minimiser (build_ocp (1, 0, 0, 0) 1 (raise_diag (diag [10, 10, 10, 10]) 0 5)
              (raise_diag (diag [1, 1]) 0 0)) ?z"
    by (rule minimiser_one_stage) (simp add: psd_raise_diag nonneg_weights_main)
  have mono: "\<exists>c c'. solve_ocp ?solve (1, 0, 0, 0) 1 (diag [10, 10, 10, 10]) (diag [1, 1]) = Inr c
      \<and> solve_ocp ?solve (1, 0, 0, 0) 1 (raise_diag (diag [10, 10, 10, 10]) 0 5)
          (raise_diag (diag [1, 1]) 0 0) = Inr c'
      \<and> c \<le> c'"
    by (rule optimal_cost_monotone [where z = ?z and z' = ?z, OF _ _ _ m _ m']) simp_all
  have c: "solve_ocp ?solve (1, 0, 0, 0) 1 (diag [10, 10, 10, 10]) (diag [1, 1]) = Inr 10"
    by (simp add: solve_ocp_def objective_build_ocp stage_cost_diag)
  have c': "solve_ocp ?solve (1, 0, 0, 0) 1 (raise_diag (diag [10, 10, 10, 10]) 0 5)
          (raise_diag (diag [1, 1]) 0 0) = Inr 15"
    by (simp add: solve_ocp_def objective_build_ocp stage_cost_def quad_raise_diag quad_diag
        eval_nat_numeral)
  show ?thesis
    using mono c c' by blast
qed

section \<open>Properties of the sample generation\<close>

lemma sample_loop_eq:
  "sample_loop solve uniform n N Q R gen (X, Y) =
     Inr ((X @ map fst (List.map_filter (sample_of solve N Q R) (draws uniform n gen)),
           Y @ map snd (List.map_filter (sample_of solve N Q R) (draws uniform n gen))),
          advance uniform n gen)"
proof (induction n arbitrary: gen X Y)
  case 0
  show ?case by (simp add: List.map_filter_simps)
next
  case (Suc n)
  obtain x0 gen' where u: "uniform gen = (x0, gen')" by (cases "uniform gen") auto
  show ?case
  proof (cases "solve_ocp solve x0 N Q R")
    case (Inl e)
    then have "e = RuntimeError" by (rule solve_ocp_error)
    with Inl show ?thesis
      by (simp add: u Suc sample_of_def List.map_filter_simps)
  next
    case (Inr J)
    then show ?thesis
      by (simp add: u Suc sample_of_def List.map_filter_simps)
  qed
qed

text \<open>
  Claim C7. The generation always returns, and its result holds, in draw order, exactly the
  pairs \<open>(x0, cost)\<close> of the draws whose solve succeeded: a draw whose solve raised
  \<open>RuntimeError\<close> leaves nothing behind, and each of the \<open>num_samples\<close> draws is taken once.
\<close>

theorem generate_ocp_samples_pairs:
  "generate_ocp_samples solve uniform gen n N Q R =
     Inr ((map fst (List.map_filter (sample_of solve N Q R) (draws uniform n gen)),
           map snd (List.map_filter (sample_of solve N Q R) (draws uniform n gen))),
          advance uniform n gen)
   \<and> length (draws uniform n gen) = n
   \<and> (\<forall>x0. sample_of solve N Q R x0 =
         (case solve (build_ocp x0 N Q R) of
            None \<Rightarrow> None
          | Some z \<Rightarrow> Some (x0, objective (build_ocp x0 N Q R) z)))"
proof -
  have "length (draws uniform n gen) = n"
    by (induction n arbitrary: gen) simp_all
  then show ?thesis
    by (simp add: generate_ocp_samples_def sample_loop_eq sample_of_def solve_ocp_def
        split: option.splits)
qed

theorem generate_ocp_samples_pairs_witness:
  "generate_ocp_samples
     (\<lambda>p. if feasible p (\<lambda>k. (0, 0, 0, 0), \<lambda>k. (0, 0)) then Some (\<lambda>k. (0, 0, 0, 0), \<lambda>k. (0, 0)) else None)
     (\<lambda>g::nat. ((if g = Suc 0 then 0 else 1, 0, 0, 0), Suc g)) 0 3 2
     (diag [10, 10, 10, 10]) (diag [1, 1]) = Inr (([(0, 0, 0, 0)], [0]), 3)"
proof -
  let ?zero = "(\<lambda>k::nat. (0::real, 0::real, 0::real, 0::real), \<lambda>k::nat. (0::real, 0::real))"
  let ?solve = "\<lambda>p. if feasible p ?zero then Some ?zero else None"
  let ?uniform = "\<lambda>g::nat. ((if g = Suc 0 then 0 else 1::real, 0::real, 0::real, 0::real), Suc g)"
  note w = generate_ocp_samples_pairs [of ?solve ?uniform 0 3 2 "diag [10, 10, 10, 10]" "diag [1, 1]"]
  have f: "feasible (build_ocp x0 2 (diag [10, 10, 10, 10]) (diag [1, 1])) ?zero \<longleftrightarrow> x0 = (0, 0, 0, 0)" for x0
    by (auto simp add: feasible_build_ocp bounded_def plant_dynamics_origin simp del: plant_dynamics.simps)
  from w have sample: "sample_of ?solve 2 (diag [10, 10, 10, 10]) (diag [1, 1]) x0 =
      (case ?solve (build_ocp x0 2 (diag [10, 10, 10, 10]) (diag [1, 1])) of
         None \<Rightarrow> None
       | Some z \<Rightarrow> Some (x0, objective (build_ocp x0 2 (diag [10, 10, 10, 10]) (diag [1, 1])) z))" for x0
    by blast
  have s0: "sample_of ?solve 2 (diag [10, 10, 10, 10]) (diag [1, 1]) (0, 0, 0, 0) = Some ((0, 0, 0, 0), 0)"
    by (simp add: sample f objective_build_ocp stage_cost_diag)
  have s1: "sample_of ?solve 2 (diag [10, 10, 10, 10]) (diag [1, 1]) (1, 0, 0, 0) = None"
    by (simp add: sample f)
  have d: "draws ?uniform 3 0 = [(1, 0, 0, 0), (0, 0, 0, 0), (1, 0, 0, 0)]"
    by (simp add: eval_nat_numeral)
  have a: "advance ?uniform 3 0 = 3"
    by (simp add: eval_nat_numeral)
  from w have "generate_ocp_samples ?solve ?uniform 0 3 2 (diag [10, 10, 10, 10]) (diag [1, 1]) =
      Inr ((map fst (List.map_filter (sample_of ?solve 2 (diag [10, 10, 10, 10]) (diag [1, 1]))
                      (draws ?uniform 3 0)),
            map snd (List.map_filter (sample_of ?solve 2 (diag [10, 10, 10, 10]) (diag [1, 1]))
                      (draws ?uniform 3 0))),
           advance ?uniform 3 0)"
    by blast
  then show ?thesis
    unfolding d a by (simp add: s0 s1 List.map_filter_simps)
qed

section \<open>Properties of the receding-horizon loop\<close>

lemma mpc_iteration_unbound:
  "sol st = None \<Longrightarrow> mpc_iteration solve value_last predict N Q R st = Inl UnboundLocalError"
  by (simp add: mpc_iteration_def build_mpc_ocp_eq)

text \<open>
  Claim C1 at its failing input. With any horizon length of at least 1 the first iteration
  reads \<open>sol\<close> at line 108 before line 118 has bound it: the controller ends with
  \<open>UnboundLocalError\<close>, whatever the solver and the terminal-cost model are; no seed
  terminal state is used.
\<close>

theorem mpc_controller_first_iteration_unbound:
  "mpc_controller solve value_last x_init dt N Q R (Suc H) terminal_cost_model = Inl UnboundLocalError"
  by (simp add: mpc_controller_def mpc_iteration_unbound)

text \<open>
  Claim C6 at its failing input. The claim has every iteration append the first control of
  the solved trajectory and move to its second state. The first iteration of a run, the
  one that starts from the values \<open>mpc_controller\<close> gives its local variables, stops at
  line 108 with \<open>UnboundLocalError\<close>: it solves nothing, appends nothing and leaves the
  current state as it was, and no later iteration is reached.
\<close>

theorem mpc_first_iteration_stops_before_solve:
  "mpc_iteration solve value_last predict N Q R
      \<lparr>x_current = x_init, total_cost = 0, x_traj = [x_init], u_traj = [], sol = None\<rparr>
     = Inl UnboundLocalError
   \<and> mpc_loop solve value_last predict N Q R (Suc h)
      \<lparr>x_current = x_init, total_cost = 0, x_traj = [x_init], u_traj = [], sol = None\<rparr>
     = Inl UnboundLocalError"
  by (simp add: mpc_iteration_unbound)

text \<open>
  Claim C5 at its failing input. The claim has a run of horizon length \<open>H\<close> make \<open>H\<close>
  iterations and return \<open>H + 1\<close> states, \<open>H\<close> controls and the summed cost. A run returns a
  result only when \<open>H = 0\<close>, and then the result is the initial state alone, no control and
  the cost 0: for every \<open>H\<close> of at least 1, solver failure or not, nothing is returned.
\<close>

theorem mpc_controller_returns_only_for_empty_horizon:
  "(mpc_controller solve value_last x_init dt N Q R H terminal_cost_model = Inr r)
     = (H = 0 \<and> r = ([x_init], [], 0))"
proof (cases H)
  case 0
  then show ?thesis
    by (auto simp add: mpc_controller_def)
next
  case (Suc h)
  then show ?thesis
    by (simp add: mpc_controller_def mpc_iteration_unbound)
qed

end
